theory Spec2Isabelle
  imports Main "HOL-Library.AList"
begin

section \<open>The event broker: subscription registry and delivery engine\<close>

text \<open>
  A shallow embedding of \<^verbatim>\<open>src/index.js\<close>: the Durable Object class
  \<^verbatim>\<open>EventSubscriptions\<close> (the registry) and the functions
  \<^verbatim>\<open>fetchWithRetry\<close> and \<^verbatim>\<open>handleEventNotifications\<close>
  (the delivery engine).

  Modelling decisions.
  \<^item> A JavaScript object is the list of its own properties, name and value, in
    insertion order (\<open>'a obj\<close>). Reading an own property is \<open>map_of\<close>,
    \<^verbatim>\<open>Object.hasOwn\<close> is \<open>hasOwn\<close>, \<^verbatim>\<open>delete o[k]\<close>
    is \<open>AList.delete\<close>, and \<^verbatim>\<open>Object.keys(o).length === 0\<close> is
    \<open>o = []\<close>. The order in which JavaScript lists integer-like keys first is not
    modelled.
  \<^item> A subscription is an object whose property values are strings; the registry
    stores \<^verbatim>\<open>{url: ...}\<close>. Values of other JSON types are not modelled.
  \<^item> The storage of the Durable Object is a keyed collection of bucket records;
    \<^verbatim>\<open>get\<close>, \<^verbatim>\<open>put\<close>, \<^verbatim>\<open>delete\<close> and
    \<^verbatim>\<open>list\<close> are total functions on it. Every registry method takes the
    storage and returns its result together with the storage it leaves behind.
  \<^item> A string is the list of the bytes of its UTF-8 encoding.
  \<^item> A thrown exception is the \<open>Inl\<close> of a sum.
  \<^item> A method argument that the caller may leave out is a \<open>string option\<close>;
    \<open>None\<close> is \<^verbatim>\<open>undefined\<close>.
\<close>

subsection \<open>Errors\<close>

text \<open>
  \<^verbatim>\<open>new Error(m)\<close> has message \<open>m\<close>;
  \<^verbatim>\<open>new NotFoundError(m)\<close> has message \<^verbatim>\<open>NotFoundError: m\<close>.
  \<open>TypeError\<close> and \<open>DataCloneError\<close> are raised by the runtime, not by the
  program's own \<^verbatim>\<open>throw\<close> statements. \<open>RemoteError m\<close> is an exception
  that reached the caller through a Durable Object stub: its \<^verbatim>\<open>remote\<close>
  property is set and only its message \<open>m\<close> identifies it.
\<close>

datatype js_error =
    Error string
  | NotFoundError string
  | TypeError
  | DataCloneError
  | RemoteError string

fun startsWith :: "string \<Rightarrow> string \<Rightarrow> bool" where
  "startsWith s [] = True"
| "startsWith [] (p # ps) = False"
| "startsWith (c # cs) (p # ps) = (c = p \<and> startsWith cs ps)"

text \<open>
  The test of lines 277 and 361:
  \<^verbatim>\<open>e instanceof NotFoundError || (e.remote && e.message.startsWith('NotFoundError'))\<close>.
\<close>

fun is_not_found :: "js_error \<Rightarrow> bool" where
  "is_not_found (NotFoundError m) = True"
| "is_not_found (RemoteError m) = startsWith m ''NotFoundError''"
| "is_not_found e = False"

subsection \<open>Objects and the storage\<close>

type_synonym 'a obj = "(string \<times> 'a) list"
type_synonym subscription = "string obj"
type_synonym subscriptions = "subscription obj"
type_synonym rules = "subscriptions obj"
type_synonym storage = "rules obj"

definition hasOwn :: "'a obj \<Rightarrow> string \<Rightarrow> bool" where
  "hasOwn ob p = (case map_of ob p of None \<Rightarrow> False | Some v \<Rightarrow> True)"

definition storage_get :: "storage \<Rightarrow> string \<Rightarrow> rules option" where
  "storage_get st k = map_of st k"

definition storage_put :: "string \<Rightarrow> rules \<Rightarrow> storage \<Rightarrow> storage" where
  "storage_put k v st = AList.update k v st"

definition storage_delete :: "string \<Rightarrow> storage \<Rightarrow> storage" where
  "storage_delete k st = AList.delete k st"

definition storage_list :: "storage \<Rightarrow> storage" where
  "storage_list st = st"

text \<open>
  \<^verbatim>\<open>!x\<close> for an argument that is a string or \<^verbatim>\<open>undefined\<close>: true for
  \<^verbatim>\<open>undefined\<close> and for the empty string.
\<close>

fun falsy :: "string option \<Rightarrow> bool" where
  "falsy None = True"
| "falsy (Some s) = (s = [])"

text \<open>
  The names a plain object inherits from \<^verbatim>\<open>Object.prototype\<close>. A read
  \<^verbatim>\<open>o[k]\<close> that is not guarded by \<^verbatim>\<open>Object.hasOwn\<close> finds them when
  \<open>o\<close> has no own property \<open>k\<close>: \<^verbatim>\<open>({})['constructor']\<close> is the function
  \<^verbatim>\<open>Object\<close>, \<^verbatim>\<open>({})['__proto__']\<close> is \<^verbatim>\<open>Object.prototype\<close>.
\<close>

definition Object_prototype_names :: "string list" where
  "Object_prototype_names =
     [''constructor'', ''__defineGetter__'', ''__defineSetter__'', ''hasOwnProperty'',
      ''__lookupGetter__'', ''__lookupSetter__'', ''isPrototypeOf'',
      ''propertyIsEnumerable'', ''toString'', ''valueOf'', ''__proto__'',
      ''toLocaleString'']"

definition inherited :: "string \<Rightarrow> bool" where
  "inherited p = (p \<in> set Object_prototype_names)"

text \<open>
  The assignment \<^verbatim>\<open>o[k] = v\<close> on a plain object. For \<open>k\<close> =
  \<^verbatim>\<open>__proto__\<close> and no own property of that name it runs the inherited setter,
  which changes the prototype and adds no own property.
\<close>

definition assign :: "'a obj \<Rightarrow> string \<Rightarrow> 'a \<Rightarrow> 'a obj" where
  "assign ob k v = (if k = ''__proto__'' \<and> \<not> hasOwn ob k then ob else AList.update k v ob)"

subsection \<open>Validation helpers\<close>

text \<open>
  \<^verbatim>\<open>/^[0-9A-F]{8}-[0-9A-F]{4}-4[0-9A-F]{3}-[89AB][0-9A-F]{3}-[0-9A-F]{12}$/i\<close>,
  matched from left to right. Each matcher takes the rest of the input and returns what
  is left after it, or \<open>None\<close>.
\<close>

definition is_hex :: "char \<Rightarrow> bool" where
  "is_hex c = (c \<in> set ''0123456789ABCDEFabcdef'')"

fun hexes :: "nat \<Rightarrow> string \<Rightarrow> string option" where
  "hexes 0 s = Some s"
| "hexes (Suc n) [] = None"
| "hexes (Suc n) (c # cs) = (if is_hex c then hexes n cs else None)"

fun one_of :: "string \<Rightarrow> string \<Rightarrow> string option" where
  "one_of cls [] = None"
| "one_of cls (c # cs) = (if c \<in> set cls then Some cs else None)"

definition uuidRegExp_test :: "string \<Rightarrow> bool" where
  "uuidRegExp_test s =
     (Option.bind (Option.bind (Option.bind (Option.bind (Option.bind (Option.bind
      (Option.bind (Option.bind (Option.bind (Option.bind
        (hexes 8 s) (one_of ''-'')) (hexes 4)) (one_of ''-'')) (one_of ''4''))
        (hexes 3)) (one_of ''-'')) (one_of ''89ABab'')) (hexes 3)) (one_of ''-''))
        (hexes 12) = Some [])"

definition checkUUID :: "string \<Rightarrow> js_error option" where
  "checkUUID ident =
     (if \<not> uuidRegExp_test ident then Some (Error (''Bad UUID: '' @ ident)) else None)"

definition checkProperty :: "'a obj \<Rightarrow> string \<Rightarrow> string \<Rightarrow> string \<Rightarrow> js_error option" where
  "checkProperty ob objType property ident =
     (if \<not> hasOwn ob property
      then Some (Error (''Missing '' @ property @ '' property in '' @ objType @
                        '' object for '' @ ident))
      else None)"

subsection \<open>The registry: class EventSubscriptions\<close>

text \<open>
  \<open>createSubscription\<close> takes two things from outside the repository as parameters:
  \<open>canParse\<close> is \<^verbatim>\<open>URL.canParse\<close>, and \<open>uuid\<close> is the value that this
  call's \<^verbatim>\<open>uuidv4()\<close> returns.

  Line 91, \<^verbatim>\<open>rules[ruleName] || {}\<close>, is not guarded by
  \<^verbatim>\<open>Object.hasOwn\<close>. When \<open>rules\<close> has no own property \<open>ruleName\<close> and
  the name is inherited, \<open>subscriptions\<close> is the inherited value. For
  \<^verbatim>\<open>__proto__\<close> that value is \<^verbatim>\<open>Object.prototype\<close>, the assignment of
  line 96 adds no own property and \<open>rules\<close> is persisted as it was loaded. For the
  other names the value is a function, line 96 makes it an own property of \<open>rules\<close>,
  and \<^verbatim>\<open>storage.put\<close> rejects the record because a function cannot be
  serialised. What line 93 writes onto the shared built-in object is outside the storage
  and not modelled.
\<close>

definition createSubscription ::
  "(string \<Rightarrow> bool) \<Rightarrow> string \<Rightarrow> string \<Rightarrow> string \<Rightarrow> subscription \<Rightarrow> storage
     \<Rightarrow> (js_error + string) \<times> storage" where
  "createSubscription canParse uuid bucketName ruleName subscription st =
     (if falsy (map_of subscription ''url'') then (Inl (Error ''No url in payload.''), st)
      else
        (case map_of subscription ''url'' of
           None \<Rightarrow> (Inl (Error ''No url in payload.''), st)
         | Some url \<Rightarrow>
             if \<not> canParse url then (Inl (Error ''url in payload is not valid.''), st)
             else
               (let rules = (case storage_get st bucketName of None \<Rightarrow> [] | Some rs \<Rightarrow> rs)
                in case map_of rules ruleName of
                     Some subscriptions \<Rightarrow>
                       (Inr uuid,
                        storage_put bucketName
                          (assign rules ruleName (AList.update uuid [(''url'', url)] subscriptions))
                          st)
                   | None \<Rightarrow>
                       if inherited ruleName then
                         (if ruleName = ''__proto__''
                          then (Inr uuid, storage_put bucketName rules st)
                          else (Inl DataCloneError, st))
                       else
                         (Inr uuid,
                          storage_put bucketName
                            (assign rules ruleName (AList.update uuid [(''url'', url)] []))
                            st))))"

datatype "value" =
    AllBuckets storage
  | Rules rules
  | Subscriptions subscriptions
  | Subscription subscription

definition getSubscriptions ::
  "string option \<Rightarrow> string option \<Rightarrow> string option \<Rightarrow> storage
     \<Rightarrow> (js_error + value) \<times> storage" where
  "getSubscriptions bucketName ruleName ident st =
     (if falsy bucketName then (Inr (AllBuckets (storage_list st)), st)
      else
        (let b = (case bucketName of None \<Rightarrow> [] | Some s \<Rightarrow> s) in
         case storage_get st b of
           None \<Rightarrow> (Inl (NotFoundError (''No rules found for '' @ b)), st)
         | Some rules \<Rightarrow>
             if falsy ruleName then (Inr (Rules rules), st)
             else
               (let r = (case ruleName of None \<Rightarrow> [] | Some s \<Rightarrow> s) in
                case map_of rules r of
                  None \<Rightarrow> (Inl (NotFoundError (''Rule '' @ r @ '' not found for '' @ b)), st)
                | Some subscriptions \<Rightarrow>
                    if falsy ident then (Inr (Subscriptions subscriptions), st)
                    else
                      (let i = (case ident of None \<Rightarrow> [] | Some s \<Rightarrow> s) in
                       case map_of subscriptions i of
                         None \<Rightarrow>
                           (Inl (NotFoundError
                                  (''ID '' @ i @ '' not found for '' @ b @ ''/'' @ r)), st)
                       | Some subscription \<Rightarrow> (Inr (Subscription subscription), st)))))"

text \<open>The loop of lines 140 to 143; \<open>None\<close> when no check throws.\<close>

fun check_entries :: "subscriptions \<Rightarrow> js_error option" where
  "check_entries [] = None"
| "check_entries ((ident, subscription) # rest) =
     (case checkUUID ident of
        Some e \<Rightarrow> Some e
      | None \<Rightarrow>
          (case checkProperty subscription ''subscription'' ''url'' ident of
             Some e \<Rightarrow> Some e
           | None \<Rightarrow> check_entries rest))"

text \<open>
  When the bucket has no record, \<^verbatim>\<open>storage.get\<close> gives
  \<^verbatim>\<open>undefined\<close> and the assignment of line 145 throws a
  \<^verbatim>\<open>TypeError\<close>.
\<close>

definition setSubscriptions ::
  "string \<Rightarrow> string \<Rightarrow> subscriptions \<Rightarrow> storage \<Rightarrow> (js_error + unit) \<times> storage" where
  "setSubscriptions bucketName ruleName subscriptions st =
     (case check_entries subscriptions of
        Some e \<Rightarrow> (Inl e, st)
      | None \<Rightarrow>
          (case storage_get st bucketName of
             None \<Rightarrow> (Inl TypeError, st)
           | Some rules \<Rightarrow>
               (Inr (), storage_put bucketName (assign rules ruleName subscriptions) st)))"

definition deleteSubscription ::
  "string \<Rightarrow> string \<Rightarrow> string \<Rightarrow> storage \<Rightarrow> (js_error + subscription) \<times> storage" where
  "deleteSubscription bucketName ruleName ident st =
     (case storage_get st bucketName of
        None \<Rightarrow> (Inl (NotFoundError (''No subscriptions for '' @ ruleName)), st)
      | Some rules \<Rightarrow>
          (case map_of rules ruleName of
             Some subscriptions \<Rightarrow>
               (case map_of subscriptions ident of
                  Some deleted \<Rightarrow>
                    (let subscriptions' = AList.delete ident subscriptions;
                         rules' = (if subscriptions' = [] then AList.delete ruleName rules
                                   else AList.update ruleName subscriptions' rules)
                     in if rules' \<noteq> [] then (Inr deleted, storage_put bucketName rules' st)
                        else (Inr deleted, storage_delete bucketName st))
                | None \<Rightarrow>
                    (Inl (NotFoundError
                           (''ID '' @ ident @ '' not found for '' @ bucketName @ ''/'' @ ruleName)),
                     st))
           | None \<Rightarrow>
               (Inl (NotFoundError
                      (''Rule '' @ ruleName @ '' not found for '' @ bucketName)), st)))"

subsection \<open>Retried delivery: fetchWithRetry\<close>

text \<open>
  A JavaScript number as the program uses it for the attempt count: an integer or
  \<^verbatim>\<open>NaN\<close>. Rounding of integers beyond \<open>2^53\<close> is not modelled.
\<close>

datatype jsnum = NaN | Num int

definition DEFAULT_MAX_FAILURE_COUNT :: int where
  "DEFAULT_MAX_FAILURE_COUNT = 5"

text \<open>
  \<^verbatim>\<open>parseInt(s, 10)\<close>: skip leading white space, read an optional sign, then the
  longest run of decimal digits; \<^verbatim>\<open>NaN\<close> when there is no digit.

  The white space that \<^verbatim>\<open>parseInt\<close> skips is every JavaScript white space
  character and line terminator: U+0009 to U+000D and U+0020, which are one byte each;
  U+00A0, which is two bytes; and U+1680, U+2000 to U+200A, U+2028, U+2029, U+202F,
  U+205F, U+3000 and U+FEFF, which are three bytes each.
\<close>

definition is_space1 :: "char \<Rightarrow> bool" where
  "is_space1 a = (a \<in> set [CHR 0x09, CHR 0x0A, CHR 0x0B, CHR 0x0C, CHR 0x0D, CHR 0x20])"

definition is_space2 :: "char \<Rightarrow> char \<Rightarrow> bool" where
  "is_space2 a b = (a = CHR 0xC2 \<and> b = CHR 0xA0)"

definition is_space3 :: "char \<Rightarrow> char \<Rightarrow> char \<Rightarrow> bool" where
  "is_space3 a b c =
     ((a = CHR 0xE1 \<and> b = CHR 0x9A \<and> c = CHR 0x80)
      \<or> (a = CHR 0xE2 \<and> b = CHR 0x80 \<and>
          c \<in> set [CHR 0x80, CHR 0x81, CHR 0x82, CHR 0x83, CHR 0x84, CHR 0x85, CHR 0x86,
                   CHR 0x87, CHR 0x88, CHR 0x89, CHR 0x8A, CHR 0xA8, CHR 0xA9, CHR 0xAF])
      \<or> (a = CHR 0xE2 \<and> b = CHR 0x81 \<and> c = CHR 0x9F)
      \<or> (a = CHR 0xE3 \<and> b = CHR 0x80 \<and> c = CHR 0x80)
      \<or> (a = CHR 0xEF \<and> b = CHR 0xBB \<and> c = CHR 0xBF))"

fun skip_white_space :: "string \<Rightarrow> string" where
  "skip_white_space [] = []"
| "skip_white_space [a] = (if is_space1 a then [] else [a])"
| "skip_white_space [a, b] =
     (if is_space1 a then skip_white_space [b]
      else if is_space2 a b then []
      else [a, b])"
| "skip_white_space (a # b # c # rest) =
     (if is_space1 a then skip_white_space (b # c # rest)
      else if is_space2 a b then skip_white_space (c # rest)
      else if is_space3 a b c then skip_white_space rest
      else a # b # c # rest)"

definition is_digit :: "char \<Rightarrow> bool" where
  "is_digit c = (c \<in> set ''0123456789'')"

definition digits_value :: "string \<Rightarrow> int" where
  "digits_value ds = foldl (\<lambda>acc c. 10 * acc + (of_char c - 48)) 0 ds"

definition parseInt10 :: "string \<Rightarrow> jsnum" where
  "parseInt10 s =
     (let s1 = skip_white_space s;
          negative = (case s1 of [] \<Rightarrow> False | c # cs \<Rightarrow> c = CHR ''-'');
          s2 = (case s1 of [] \<Rightarrow> [] | c # cs \<Rightarrow> if c = CHR ''-'' \<or> c = CHR ''+'' then cs else s1);
          z = takeWhile is_digit s2
      in if z = [] then NaN
         else Num (if negative then - digits_value z else digits_value z))"

text \<open>How a template literal prints a number.\<close>

fun string_of_nat :: "nat \<Rightarrow> string" where
  "string_of_nat n =
     (if n < 10 then [char_of (48 + n)]
      else string_of_nat (n div 10) @ [char_of (48 + n mod 10)])"

declare string_of_nat.simps [simp del]

fun string_of_jsnum :: "jsnum \<Rightarrow> string" where
  "string_of_jsnum NaN = ''NaN''"
| "string_of_jsnum (Num n) =
     (if n < 0 then ''-'' @ string_of_nat (nat (- n)) else string_of_nat (nat n))"

text \<open>
  What \<^verbatim>\<open>subscription.url\<close> evaluates to, the first argument of
  \<^verbatim>\<open>fetch\<close>: \<^verbatim>\<open>undefined\<close>, a string, or an object.
\<close>

datatype resource = Undefined | Url string | AnObject

fun string_of_resource :: "resource \<Rightarrow> string" where
  "string_of_resource Undefined = ''undefined''"
| "string_of_resource (Url u) = u"
| "string_of_resource AnObject = ''[object Object]''"

record event =
  bucketName :: string
  matchedRuleName :: string
  payload :: string

text \<open>
  The second argument of \<^verbatim>\<open>fetch\<close>. The body is the JSON text of
  \<^verbatim>\<open>{ "event": [event] }\<close>, kept here as the list of events it wraps.
\<close>

datatype options = Options (http_method: string) (body: "event list")

text \<open>
  One call of \<^verbatim>\<open>fetch\<close> either resolves with a response or throws. A
  response has a status and a body; \<^verbatim>\<open>await response.text()\<close> either gives
  the text of the body or throws, when the body cannot be read to its end.
  \<open>response_ok\<close> is \<^verbatim>\<open>response?.ok\<close>: a response whose status is in the
  range 200 to 299.
\<close>

datatype body = Text string | Unreadable js_error

datatype fetch_result = Response nat body | NetworkError

fun response_ok :: "fetch_result \<Rightarrow> bool" where
  "response_ok (Response status b) = (200 \<le> status \<and> status \<le> 299)"
| "response_ok NetworkError = False"

text \<open>
  Line 250 awaits \<^verbatim>\<open>response.text()\<close> for the log line of a response that is
  not ok. The call stands outside the \<^verbatim>\<open>try\<close> of lines 239 to 243:
  \<open>text_failure\<close> is the exception it throws, if any.
\<close>

fun text_failure :: "fetch_result \<Rightarrow> js_error option" where
  "text_failure (Response status (Unreadable e)) = Some e"
| "text_failure (Response status (Text t)) = None"
| "text_failure NetworkError = None"

datatype io = Fetch resource options | Sleep nat

datatype settled = Fulfilled fetch_result | Rejected js_error

text \<open>\<^verbatim>\<open>i < maxFailureCount\<close>; every comparison with \<^verbatim>\<open>NaN\<close> is false.\<close>

fun js_less :: "nat \<Rightarrow> jsnum \<Rightarrow> bool" where
  "js_less i NaN = False"
| "js_less i (Num n) = (int i < n)"

text \<open>
  The loop of \<^verbatim>\<open>fetchWithRetry\<close>. \<open>net i\<close> is what the call of
  \<^verbatim>\<open>fetch\<close> in iteration \<open>i\<close> gives. The result is how the promise settles,
  with the calls of \<^verbatim>\<open>fetch\<close> and \<^verbatim>\<open>sleep\<close> in the order they are
  made. When the body of a response that is not ok cannot be read, the exception of
  line 250 leaves the function: the promise is rejected at once, with no sleep and no
  further attempt.
\<close>

function fetchWithRetry_loop ::
  "(nat \<Rightarrow> fetch_result) \<Rightarrow> resource \<Rightarrow> options \<Rightarrow> jsnum \<Rightarrow> nat \<Rightarrow> nat \<Rightarrow> settled \<times> io list" where
  "fetchWithRetry_loop net resource opts maxFailureCount i delay =
     (if js_less i maxFailureCount then
        (if response_ok (net i) then (Fulfilled (net i), [Fetch resource opts])
         else
           (case text_failure (net i) of
              Some e \<Rightarrow> (Rejected e, [Fetch resource opts])
            | None \<Rightarrow>
                (case fetchWithRetry_loop net resource opts maxFailureCount (Suc i)
                        (if delay = 0 then 1000 else delay * 2) of
                   (result, trace) \<Rightarrow> (result, Fetch resource opts # Sleep delay # trace))))
      else
        (Rejected (Error (string_of_jsnum maxFailureCount @ '' failures to '' @ http_method opts @
                          '' '' @ string_of_resource resource)),
         []))"
  by pat_completeness auto
termination
  by (relation "measure (\<lambda>(net, resource, opts, m, i, delay).
                  case m of NaN \<Rightarrow> 0 | Num n \<Rightarrow> nat (n - int i))")
     (auto split: jsnum.splits)

declare fetchWithRetry_loop.simps [simp del]

definition fetchWithRetry ::
  "(nat \<Rightarrow> fetch_result) \<Rightarrow> resource \<Rightarrow> options \<Rightarrow> jsnum \<Rightarrow> settled \<times> io list" where
  "fetchWithRetry net resource opts maxFailureCount =
     fetchWithRetry_loop net resource opts maxFailureCount 0 0"

subsection \<open>Fan-out: handleEventNotifications\<close>

text \<open>
  \<open>stub\<close> is the third parameter of \<^verbatim>\<open>handleEventNotifications\<close>: the two
  methods the handler calls on it, over whatever state \<open>'st\<close> stands behind the stub.
\<close>

record 'st stub =
  stub_getSubscriptions :: "string \<Rightarrow> string \<Rightarrow> 'st \<Rightarrow> (js_error + value) \<times> 'st"
  stub_deleteSubscription ::
    "string \<Rightarrow> string \<Rightarrow> string \<Rightarrow> 'st \<Rightarrow> (js_error + subscription) \<times> 'st"

text \<open>
  What the handler does that can be seen from outside, in order: its calls on the stub,
  one \<open>Delivery\<close> for each call of \<^verbatim>\<open>fetchWithRetry\<close> with that call's own
  sequence of fetches and sleeps (the deliveries of one event run concurrently), and the
  two error reports of lines 280 and 312. The other \<^verbatim>\<open>console.log\<close> lines are
  left out.
\<close>

datatype action =
    Call_getSubscriptions string string
  | Delivery string resource "io list"
  | Call_deleteSubscription string string string
  | Log_lookup_error
  | Console_error js_error

text \<open>
  How a block of statements ends: it runs to its end, it executes \<^verbatim>\<open>return\<close>,
  or an exception leaves it.
\<close>

datatype flow = Normal | Returned | Thrown js_error

text \<open>
  \<^verbatim>\<open>Object.entries\<close> of what the lookup returned, each entry with the value of
  its \<^verbatim>\<open>.url\<close>.
\<close>

definition url_of :: "'a obj \<Rightarrow> ('a \<Rightarrow> resource) \<Rightarrow> resource" where
  "url_of ob as_resource = (case map_of ob ''url'' of None \<Rightarrow> Undefined | Some v \<Rightarrow> as_resource v)"

fun entries :: "value \<Rightarrow> (string \<times> resource) list" where
  "entries (Subscriptions subs) = map (\<lambda>(k, sub). (k, url_of sub Url)) subs"
| "entries (Rules rules) = map (\<lambda>(k, subs). (k, url_of subs (\<lambda>v. AnObject))) rules"
| "entries (AllBuckets st) = map (\<lambda>(k, rules). (k, url_of rules (\<lambda>v. AnObject))) st"
| "entries (Subscription sub) = map (\<lambda>(k, v). (k, Undefined)) sub"

text \<open>The loop of lines 300 to 309 over the settled outcomes.\<close>

fun outcomes_loop ::
  "'st stub \<Rightarrow> event \<Rightarrow> (string \<times> resource \<times> settled) list \<Rightarrow> 'st \<Rightarrow> flow \<times> action list \<times> 'st" where
  "outcomes_loop stub ev [] st = (Normal, [], st)"
| "outcomes_loop stub ev ((ident, res, outcome) # rest) st =
     (case outcome of
        Fulfilled response \<Rightarrow> outcomes_loop stub ev rest st
      | Rejected reason \<Rightarrow>
          (case stub_deleteSubscription stub (bucketName ev) (matchedRuleName ev) ident st of
             (Inl e, st1) \<Rightarrow>
               (Thrown e, [Call_deleteSubscription (bucketName ev) (matchedRuleName ev) ident], st1)
           | (Inr deleted, st1) \<Rightarrow>
               (case outcomes_loop stub ev rest st1 of
                  (fl, tr, st2) \<Rightarrow>
                    (fl,
                     Call_deleteSubscription (bucketName ev) (matchedRuleName ev) ident # tr,
                     st2))))"

text \<open>
  Lines 289 to 299 for one event and its entries: one retried delivery is started for
  each entry and the handler waits until all of them have settled.
  \<open>net ev ident\<close> gives the responses that the delivery of \<open>ev\<close> to the subscriber
  \<open>ident\<close> meets. \<open>deliveries\<close> is what the deliveries do, \<open>outcomes\<close> is
  what \<^verbatim>\<open>Promise.allSettled\<close> returns, paired with \<^verbatim>\<open>sent\<close>.
\<close>

definition settle ::
  "(event \<Rightarrow> string \<Rightarrow> nat \<Rightarrow> fetch_result) \<Rightarrow> jsnum \<Rightarrow> event \<Rightarrow> string \<Rightarrow> resource
     \<Rightarrow> settled \<times> io list" where
  "settle net maxFailureCount ev ident res =
     fetchWithRetry (net ev ident) res (Options ''POST'' [ev]) maxFailureCount"

definition deliveries ::
  "(event \<Rightarrow> string \<Rightarrow> nat \<Rightarrow> fetch_result) \<Rightarrow> jsnum \<Rightarrow> event \<Rightarrow> (string \<times> resource) list
     \<Rightarrow> action list" where
  "deliveries net maxFailureCount ev sent =
     map (\<lambda>(ident, res). Delivery ident res (snd (settle net maxFailureCount ev ident res))) sent"

definition outcomes ::
  "(event \<Rightarrow> string \<Rightarrow> nat \<Rightarrow> fetch_result) \<Rightarrow> jsnum \<Rightarrow> event \<Rightarrow> (string \<times> resource) list
     \<Rightarrow> (string \<times> resource \<times> settled) list" where
  "outcomes net maxFailureCount ev sent =
     map (\<lambda>(ident, res). (ident, res, fst (settle net maxFailureCount ev ident res))) sent"

text \<open>Lines 289 to 309: the fan-out of one event, then the loop over the outcomes.\<close>

definition fan_out ::
  "'st stub \<Rightarrow> (event \<Rightarrow> string \<Rightarrow> nat \<Rightarrow> fetch_result) \<Rightarrow> jsnum \<Rightarrow> event
     \<Rightarrow> (string \<times> resource) list \<Rightarrow> 'st \<Rightarrow> flow \<times> action list \<times> 'st" where
  "fan_out stub net maxFailureCount ev sent st =
     (case outcomes_loop stub ev (outcomes net maxFailureCount ev sent) st of
        (fl, tr, st1) \<Rightarrow> (fl, deliveries net maxFailureCount ev sent @ tr, st1))"

text \<open>The body of the loop over the events, lines 273 to 309.\<close>

definition process_event ::
  "'st stub \<Rightarrow> (event \<Rightarrow> string \<Rightarrow> nat \<Rightarrow> fetch_result) \<Rightarrow> jsnum \<Rightarrow> event \<Rightarrow> 'st
     \<Rightarrow> flow \<times> action list \<times> 'st" where
  "process_event stub net maxFailureCount ev st =
     (case stub_getSubscriptions stub (bucketName ev) (matchedRuleName ev) st of
        (Inl e, st1) \<Rightarrow>
          if is_not_found e then
            (case fan_out stub net maxFailureCount ev [] st1 of
               (fl, tr, st2) \<Rightarrow>
                 (fl, Call_getSubscriptions (bucketName ev) (matchedRuleName ev) # tr, st2))
          else
            (Returned,
             [Call_getSubscriptions (bucketName ev) (matchedRuleName ev), Log_lookup_error],
             st1)
      | (Inr subscriptions, st1) \<Rightarrow>
          (case fan_out stub net maxFailureCount ev (entries subscriptions) st1 of
             (fl, tr, st2) \<Rightarrow>
               (fl, Call_getSubscriptions (bucketName ev) (matchedRuleName ev) # tr, st2)))"

fun events_loop ::
  "'st stub \<Rightarrow> (event \<Rightarrow> string \<Rightarrow> nat \<Rightarrow> fetch_result) \<Rightarrow> jsnum \<Rightarrow> event list \<Rightarrow> 'st
     \<Rightarrow> flow \<times> action list \<times> 'st" where
  "events_loop stub net maxFailureCount [] st = (Normal, [], st)"
| "events_loop stub net maxFailureCount (ev # evs) st =
     (case process_event stub net maxFailureCount ev st of
        (fl, tr, st1) \<Rightarrow>
          (case fl of
             Normal \<Rightarrow>
               (case events_loop stub net maxFailureCount evs st1 of
                  (fl2, tr2, st2) \<Rightarrow> (fl2, tr @ tr2, st2))
           | Returned \<Rightarrow> (Returned, tr, st1)
           | Thrown e \<Rightarrow> (Thrown e, tr, st1)))"

text \<open>
  \<open>env\<close> holds the variables of the Worker, each as the string that
  \<^verbatim>\<open>parseInt\<close> makes of its first argument before it reads it. The
  \<^verbatim>\<open>catch\<close> of line 311 reports an exception that left the loop.
\<close>

definition maxFailureCount_of :: "string obj \<Rightarrow> jsnum" where
  "maxFailureCount_of env =
     (if hasOwn env ''MAX_FAILURE_COUNT''
      then (case map_of env ''MAX_FAILURE_COUNT'' of None \<Rightarrow> NaN | Some v \<Rightarrow> parseInt10 v)
      else Num DEFAULT_MAX_FAILURE_COUNT)"

definition handleEventNotifications ::
  "event list \<Rightarrow> string obj \<Rightarrow> 'st stub \<Rightarrow> (event \<Rightarrow> string \<Rightarrow> nat \<Rightarrow> fetch_result) \<Rightarrow> 'st
     \<Rightarrow> action list \<times> 'st" where
  "handleEventNotifications events env stub net st =
     (case events_loop stub net (maxFailureCount_of env) events st of
        (fl, tr, st1) \<Rightarrow>
          (case fl of
             Thrown e \<Rightarrow> (tr @ [Console_error e], st1)
           | Normal \<Rightarrow> (tr, st1)
           | Returned \<Rightarrow> (tr, st1)))"

subsection \<open>Stubs over the registry\<close>

text \<open>
  \<open>registry_stub\<close> calls the two methods of the registry on its storage, with no other
  client of the object. A Durable Object stub relays the same calls; an exception then
  arrives marked as remote with the same message, which \<open>is_not_found\<close> treats alike.
\<close>

definition registry_stub :: "storage stub" where
  "registry_stub =
     \<lparr> stub_getSubscriptions = (\<lambda>b r st. getSubscriptions (Some b) (Some r) None st),
       stub_deleteSubscription = (\<lambda>b r i st. deleteSubscription b r i st) \<rparr>"




subsection \<open>Observers used to state the properties\<close>

text \<open>The subscription stored under a bucket, a rule and an identifier, if any.\<close>

definition find_subscription :: "storage \<Rightarrow> string \<Rightarrow> string \<Rightarrow> string \<Rightarrow> subscription option" where
  "find_subscription st b r i =
     (case map_of st b of
        None \<Rightarrow> None
      | Some rules \<Rightarrow> (case map_of rules r of None \<Rightarrow> None | Some subs \<Rightarrow> map_of subs i))"

text \<open>
  The invariant of the data model: no persisted bucket record is empty and no persisted
  rule is empty.
\<close>

definition no_empty_persisted :: "storage \<Rightarrow> bool" where
  "no_empty_persisted st =
     list_all (\<lambda>(b, rules). rules \<noteq> [] \<and> list_all (\<lambda>(r, subs). subs \<noteq> []) rules) st"

text \<open>
  The delays of the retry policy as the specification lists them: 0, 1000, 2000, 4000
  and so on, in milliseconds.
\<close>

fun spec_delay :: "nat \<Rightarrow> nat" where
  "spec_delay 0 = 0"
| "spec_delay (Suc k) = 1000 * 2 ^ k"



section \<open>Properties of the registry\<close>

subsection \<open>Facts about objects\<close>

lemma delete_eq_Nil: "(AList.delete k al = []) = (fst ` set al \<subseteq> {k})"
  by (induction al) (auto simp: AList.delete_eq)

lemma update_not_Nil: "AList.update k v al \<noteq> []"
  by (cases al) auto

lemma keys_singleton:
  "map_of al k = Some v \<Longrightarrow> (fst ` set al \<subseteq> {k}) = (fst ` set al = {k})"
  by (auto dest!: map_of_SomeD intro: rev_image_eqI)

subsection \<open>deleteSubscription\<close>

lemma deleteSubscription_absent:
  "find_subscription st b r i = None \<Longrightarrow>
   \<exists>m. deleteSubscription b r i st = (Inl (NotFoundError m), st)"
  by (auto simp: find_subscription_def deleteSubscription_def storage_get_def
           split: option.splits)

lemma deleteSubscription_present:
  assumes "map_of st b = Some rules" "map_of rules r = Some subs" "map_of subs i = Some d"
  shows "deleteSubscription b r i st =
           (Inr d,
            if fst ` set subs = {i} \<and> fst ` set rules = {r} then AList.delete b st
            else AList.update b
                   (if fst ` set subs = {i} then AList.delete r rules
                    else AList.update r (AList.delete i subs) rules) st)"
  using assms keys_singleton[OF assms(2)] keys_singleton[OF assms(3)]
  by (auto simp: deleteSubscription_def storage_get_def storage_put_def storage_delete_def
        Let_def delete_eq_Nil update_not_Nil)

lemma find_after_delete:
  assumes "map_of st b = Some rules" "map_of rules r = Some subs" "map_of subs i = Some d"
  shows "find_subscription (snd (deleteSubscription b r i st)) b r i = None"
  by (simp add: deleteSubscription_present[OF assms] find_subscription_def
        AList.update_conv' AList.delete_conv')

text \<open>
  Claim C5. \<open>deleteSubscription\<close> fails with a \<open>NotFoundError\<close> exactly when no
  subscription is stored under the bucket, the rule and the identifier (the bucket has no
  record, or the rule is absent, or the identifier is absent in the rule), and then the
  storage is left as it was. When the subscription \<open>d\<close> is stored there, the call
  returns \<open>d\<close>; the other buckets keep their records; the bucket key is gone when the
  subscription was the only one of the only rule, and otherwise the bucket keeps a
  non-empty record in which the other rules are unchanged and the rule is gone when the
  subscription was its only one, and otherwise is the old rule without the identifier and
  not empty. Deleting the same identifier again fails with a \<open>NotFoundError\<close>.
\<close>

theorem deleteSubscription_correct:
  "((\<exists>m. fst (deleteSubscription b r i st) = Inl (NotFoundError m)) =
      (find_subscription st b r i = None))
   \<and> (find_subscription st b r i = None \<longrightarrow> snd (deleteSubscription b r i st) = st)
   \<and> (\<forall>rules subs d.
        map_of st b = Some rules \<and> map_of rules r = Some subs \<and> map_of subs i = Some d \<longrightarrow>
        (\<exists>st'. deleteSubscription b r i st = (Inr d, st')
           \<and> (\<forall>b'. b' \<noteq> b \<longrightarrow> map_of st' b' = map_of st b')
           \<and> (if fst ` set subs = {i} \<and> fst ` set rules = {r} then map_of st' b = None
               else \<exists>rules'. map_of st' b = Some rules' \<and> rules' \<noteq> []
                 \<and> (\<forall>r'. r' \<noteq> r \<longrightarrow> map_of rules' r' = map_of rules r')
                 \<and> (if fst ` set subs = {i} then map_of rules' r = None
                     else \<exists>subs'. map_of rules' r = Some subs' \<and> subs' \<noteq> [] \<and>
                            map_of subs' = (map_of subs)(i := None)))
           \<and> (\<exists>m. deleteSubscription b r i st' = (Inl (NotFoundError m), st'))))"
proof (intro conjI allI impI)
  show "(\<exists>m. fst (deleteSubscription b r i st) = Inl (NotFoundError m)) =
          (find_subscription st b r i = None)"
  proof
    assume "\<exists>m. fst (deleteSubscription b r i st) = Inl (NotFoundError m)"
    then show "find_subscription st b r i = None"
      by (auto simp: find_subscription_def deleteSubscription_def storage_get_def Let_def
               split: option.splits if_splits)
  next
    assume "find_subscription st b r i = None"
    from deleteSubscription_absent[OF this]
    show "\<exists>m. fst (deleteSubscription b r i st) = Inl (NotFoundError m)" by auto
  qed
next
  assume "find_subscription st b r i = None"
  from deleteSubscription_absent[OF this]
  show "snd (deleteSubscription b r i st) = st" by auto
next
  fix rules subs d
  assume a: "map_of st b = Some rules \<and> map_of rules r = Some subs \<and> map_of subs i = Some d"
  then have p: "map_of st b = Some rules" "map_of rules r = Some subs" "map_of subs i = Some d"
    by simp_all
  define st' where "st' = snd (deleteSubscription b r i st)"
  have eq: "deleteSubscription b r i st = (Inr d, st')"
    by (simp add: st'_def deleteSubscription_present[OF p])
  have st': "st' = (if fst ` set subs = {i} \<and> fst ` set rules = {r} then AList.delete b st
            else AList.update b
                   (if fst ` set subs = {i} then AList.delete r rules
                    else AList.update r (AList.delete i subs) rules) st)"
    by (simp add: st'_def deleteSubscription_present[OF p])
  have other: "\<forall>b'. b' \<noteq> b \<longrightarrow> map_of st' b' = map_of st b'"
    by (simp add: st' AList.update_conv' AList.delete_conv')
  have ne: "fst ` set subs \<noteq> {i} \<Longrightarrow> AList.delete i subs \<noteq> []"
    using keys_singleton[OF p(3)] by (simp add: delete_eq_Nil)
  have ne2: "fst ` set rules \<noteq> {r} \<Longrightarrow> AList.delete r rules \<noteq> []"
    using keys_singleton[OF p(2)] by (simp add: delete_eq_Nil)
  have shape: "if fst ` set subs = {i} \<and> fst ` set rules = {r} then map_of st' b = None
               else \<exists>rules'. map_of st' b = Some rules' \<and> rules' \<noteq> []
                 \<and> (\<forall>r'. r' \<noteq> r \<longrightarrow> map_of rules' r' = map_of rules r')
                 \<and> (if fst ` set subs = {i} then map_of rules' r = None
                     else \<exists>subs'. map_of rules' r = Some subs' \<and> subs' \<noteq> [] \<and>
                            map_of subs' = (map_of subs)(i := None))"
    using ne ne2
    by (auto simp: st' AList.update_conv' AList.delete_conv' update_not_Nil)
  have "find_subscription st' b r i = None"
    using find_after_delete[OF p] by (simp add: st'_def)
  from deleteSubscription_absent[OF this]
  have again: "\<exists>m. deleteSubscription b r i st' = (Inl (NotFoundError m), st')" .
  show "\<exists>st'. deleteSubscription b r i st = (Inr d, st')
           \<and> (\<forall>b'. b' \<noteq> b \<longrightarrow> map_of st' b' = map_of st b')
           \<and> (if fst ` set subs = {i} \<and> fst ` set rules = {r} then map_of st' b = None
               else \<exists>rules'. map_of st' b = Some rules' \<and> rules' \<noteq> []
                 \<and> (\<forall>r'. r' \<noteq> r \<longrightarrow> map_of rules' r' = map_of rules r')
                 \<and> (if fst ` set subs = {i} then map_of rules' r = None
                     else \<exists>subs'. map_of rules' r = Some subs' \<and> subs' \<noteq> [] \<and>
                            map_of subs' = (map_of subs)(i := None)))
           \<and> (\<exists>m. deleteSubscription b r i st' = (Inl (NotFoundError m), st'))"
    using eq other shape again by blast
qed

text \<open>
  The scenario of the specification: the only subscription of the only rule of
  \<^verbatim>\<open>b1\<close> is deleted, the bucket key goes with it, and a second delete fails.
\<close>

theorem deleteSubscription_correct_witness:
  "deleteSubscription ''b1'' ''r1'' ''2bdd4246-d838-4c0a-9a50-a7483534836e''
     [(''b1'', [(''r1'', [(''2bdd4246-d838-4c0a-9a50-a7483534836e'',
                           [(''url'', ''https://ex.com/hook'')])])])]
     = (Inr [(''url'', ''https://ex.com/hook'')], [])
   \<and> (\<exists>m. deleteSubscription ''b1'' ''r1'' ''2bdd4246-d838-4c0a-9a50-a7483534836e'' []
            = (Inl (NotFoundError m), []))"
  using deleteSubscription_correct
    [of "''b1''" "''r1''" "''2bdd4246-d838-4c0a-9a50-a7483534836e''"
        "[(''b1'', [(''r1'', [(''2bdd4246-d838-4c0a-9a50-a7483534836e'',
                           [(''url'', ''https://ex.com/hook'')])])])]"]
  by (simp add: deleteSubscription_def storage_get_def storage_put_def storage_delete_def)

subsection \<open>setSubscriptions\<close>

text \<open>
  Claim C1. The bucket \<^verbatim>\<open>b1\<close> has no record and the supplied map has one valid
  UUID key with a \<^verbatim>\<open>url\<close>. \<open>setSubscriptions\<close> fails with a
  \<open>TypeError\<close>, which the handler's test does not take for a \<open>NotFoundError\<close>,
  and creates no bucket.
\<close>

theorem setSubscriptions_missing_bucket:
  "setSubscriptions ''b1'' ''r1''
     [(''2bdd4246-d838-4c0a-9a50-a7483534836e'', [(''url'', ''https://ex.com/hook'')])] []
   = (Inl TypeError, [])
   \<and> \<not> is_not_found TypeError"
  by code_simp

lemma check_entries_rejects:
  "(ident, sub) \<in> set subs \<Longrightarrow> \<not> uuidRegExp_test ident \<or> \<not> hasOwn sub ''url'' \<Longrightarrow>
   \<exists>m. check_entries subs = Some (Error m)"
proof (induction subs)
  case Nil
  then show ?case by simp
next
  case (Cons p subs)
  obtain k v where p: "p = (k, v)" by (cases p)
  show ?case
  proof (cases "uuidRegExp_test k \<and> hasOwn v ''url''")
    case True
    with Cons.prems p have "(ident, sub) \<in> set subs" by auto
    from Cons.IH[OF this Cons.prems(2)] True p show ?thesis
      by (simp add: checkUUID_def checkProperty_def)
  next
    case False
    with p show ?thesis
      by (auto simp: checkUUID_def checkProperty_def)
  qed
qed

text \<open>
  Claim C8. When the supplied map has an entry whose identifier does not match the UUID
  pattern or whose subscription has no own property \<^verbatim>\<open>url\<close>,
  \<open>setSubscriptions\<close> throws a plain \<^verbatim>\<open>Error\<close> (the validation error of the
  specification) and the storage is exactly what it was, whatever the bucket, the rule
  and the storage are.
\<close>

theorem setSubscriptions_rejects_invalid:
  "(ident, sub) \<in> set subs \<Longrightarrow> \<not> uuidRegExp_test ident \<or> \<not> hasOwn sub ''url'' \<Longrightarrow>
   \<exists>m. setSubscriptions b r subs st = (Inl (Error m), st)"
  using check_entries_rejects[of ident sub subs]
  by (auto simp: setSubscriptions_def)

theorem setSubscriptions_rejects_invalid_witness:
  "(\<exists>m. setSubscriptions ''b1'' ''r1''
          [(''2bdd4246-d838-4c0a-9a50-a7483534836e'', [(''url'', ''https://ex.com/hook'')]),
           (''not-a-uuid'', [(''url'', ''https://ex.com/other'')])]
          [(''b1'', [(''r1'', [(''2bdd4246-d838-4c0a-9a50-a7483534836e'',
                                [(''url'', ''https://ex.com/hook'')])])])]
        = (Inl (Error m),
           [(''b1'', [(''r1'', [(''2bdd4246-d838-4c0a-9a50-a7483534836e'',
                                [(''url'', ''https://ex.com/hook'')])])])]))
   \<and> (\<exists>m. setSubscriptions ''b1'' ''r1''
          [(''2bdd4246-d838-4c0a-9a50-a7483534836e'', [(''uri'', ''https://ex.com/hook'')])]
          [] = (Inl (Error m), []))"
proof -
  have a: "\<not> uuidRegExp_test ''not-a-uuid''" by code_simp
  have b: "\<not> hasOwn [(''uri'', ''https://ex.com/hook'')] ''url''" by code_simp
  show ?thesis
    using setSubscriptions_rejects_invalid
            [of "''not-a-uuid''" "[(''url'', ''https://ex.com/other'')]"
                "[(''2bdd4246-d838-4c0a-9a50-a7483534836e'', [(''url'', ''https://ex.com/hook'')]),
                  (''not-a-uuid'', [(''url'', ''https://ex.com/other'')])]"
                "''b1''" "''r1''"
                "[(''b1'', [(''r1'', [(''2bdd4246-d838-4c0a-9a50-a7483534836e'',
                                [(''url'', ''https://ex.com/hook'')])])])]"]
          setSubscriptions_rejects_invalid
            [of "''2bdd4246-d838-4c0a-9a50-a7483534836e''" "[(''uri'', ''https://ex.com/hook'')]"
                "[(''2bdd4246-d838-4c0a-9a50-a7483534836e'', [(''uri'', ''https://ex.com/hook'')])]"
                "''b1''" "''r1''" "[]"]
          a b
    by simp
qed

subsection \<open>The invariant of the data model\<close>

text \<open>
  \<open>deleteSubscription\<close> keeps the invariant, \<open>setSubscriptions\<close> keeps it when
  the supplied map is not empty, and \<open>createSubscription\<close> keeps it for every rule
  name but \<^verbatim>\<open>__proto__\<close>.
\<close>

lemma list_all_update:
  "list_all P al \<Longrightarrow> P (k, v) \<Longrightarrow> list_all P (AList.update k v al)"
  by (induction al) auto

lemma list_all_delete: "list_all P al \<Longrightarrow> list_all P (AList.delete k al)"
  by (simp add: AList.delete_eq list_all_iff)

lemma list_all_map_of: "list_all P al \<Longrightarrow> map_of al k = Some v \<Longrightarrow> P (k, v)"
  by (auto simp: list_all_iff dest: map_of_SomeD)

lemma invariant_record:
  "no_empty_persisted st \<Longrightarrow> map_of st b = Some rules \<Longrightarrow>
   rules \<noteq> [] \<and> list_all (\<lambda>(r, subs). subs \<noteq> []) rules"
  unfolding no_empty_persisted_def by (drule (1) list_all_map_of) simp

lemma invariant_put:
  "no_empty_persisted st \<Longrightarrow> rules \<noteq> [] \<Longrightarrow> list_all (\<lambda>(r, subs). subs \<noteq> []) rules \<Longrightarrow>
   no_empty_persisted (AList.update b rules st)"
  unfolding no_empty_persisted_def by (rule list_all_update) simp_all

lemma invariant_delete: "no_empty_persisted st \<Longrightarrow> no_empty_persisted (AList.delete b st)"
  unfolding no_empty_persisted_def by (rule list_all_delete)

lemma deleteSubscription_keeps_invariant:
  assumes "no_empty_persisted st"
  shows "no_empty_persisted (snd (deleteSubscription b r i st))"
proof (cases "find_subscription st b r i")
  case None
  from deleteSubscription_absent[OF this] assms show ?thesis by auto
next
  case (Some d)
  then obtain rules subs where p:
    "map_of st b = Some rules" "map_of rules r = Some subs" "map_of subs i = Some d"
    by (auto simp: find_subscription_def split: option.splits)
  from invariant_record[OF assms p(1)]
  have rs: "list_all (\<lambda>(r, subs). subs \<noteq> []) rules" by simp
  have ne: "fst ` set subs \<noteq> {i} \<Longrightarrow> AList.delete i subs \<noteq> []"
    using keys_singleton[OF p(3)] by (simp add: delete_eq_Nil)
  have ne2: "fst ` set rules \<noteq> {r} \<Longrightarrow> AList.delete r rules \<noteq> []"
    using keys_singleton[OF p(2)] by (simp add: delete_eq_Nil)
  show ?thesis
    using assms rs ne ne2
    by (auto simp: deleteSubscription_present[OF p] update_not_Nil
             intro!: invariant_put invariant_delete list_all_update list_all_delete)
qed

lemma setSubscriptions_keeps_invariant:
  assumes "no_empty_persisted st" "subs \<noteq> []"
  shows "no_empty_persisted (snd (setSubscriptions b r subs st))"
  using assms
  by (auto simp: setSubscriptions_def storage_get_def storage_put_def assign_def update_not_Nil
           split: option.splits
           dest: invariant_record
           intro!: invariant_put list_all_update)

lemma createSubscription_keeps_invariant:
  assumes "no_empty_persisted st" "r \<noteq> ''__proto__''"
  shows "no_empty_persisted (snd (createSubscription canParse uuid b r sub st))"
  using assms
  by (auto simp: createSubscription_def storage_get_def storage_put_def assign_def
                 update_not_Nil Let_def
           split: option.splits
           dest: invariant_record
           intro!: invariant_put list_all_update)

text \<open>
  Claim C2. The bucket \<^verbatim>\<open>b1\<close> has one rule with one subscription, so the
  storage satisfies the invariant. \<open>setSubscriptions\<close> with the empty map completes
  and persists the rule \<^verbatim>\<open>r1\<close> with no subscription: the storage it leaves
  does not satisfy the invariant.
\<close>

theorem setSubscriptions_persists_empty_rule:
  "setSubscriptions ''b1'' ''r1'' []
     [(''b1'', [(''r1'', [(''2bdd4246-d838-4c0a-9a50-a7483534836e'',
                           [(''url'', ''https://ex.com/hook'')])])])]
   = (Inr (), [(''b1'', [(''r1'', [])])])
   \<and> no_empty_persisted [(''b1'', [(''r1'', [(''2bdd4246-d838-4c0a-9a50-a7483534836e'',
                           [(''url'', ''https://ex.com/hook'')])])])]
   \<and> \<not> no_empty_persisted [(''b1'', [(''r1'', [])])]"
  by code_simp

subsection \<open>getSubscriptions\<close>

text \<open>
  Claim C9. \<open>getSubscriptions\<close> never changes the storage. With no bucket it returns
  all bucket records. With a bucket and no rule it returns the bucket's rules, or fails
  with a \<open>NotFoundError\<close> when the bucket has no record. With a bucket and a rule and
  no identifier it returns the rule's subscriptions, or fails with a \<open>NotFoundError\<close>
  when the bucket has no record or the rule is absent. With all three it returns the
  subscription, or fails with a \<open>NotFoundError\<close> when the bucket, the rule or the
  identifier is absent.
\<close>

theorem getSubscriptions_forms:
  "snd (getSubscriptions bo ro io st) = st
   \<and> (falsy bo \<longrightarrow> fst (getSubscriptions bo ro io st) = Inr (AllBuckets st))
   \<and> (b \<noteq> [] \<and> falsy ro \<longrightarrow>
        fst (getSubscriptions (Some b) ro io st) =
          (case map_of st b of
             None \<Rightarrow> Inl (NotFoundError (''No rules found for '' @ b))
           | Some rules \<Rightarrow> Inr (Rules rules)))
   \<and> (b \<noteq> [] \<and> r \<noteq> [] \<and> falsy io \<longrightarrow>
        fst (getSubscriptions (Some b) (Some r) io st) =
          (case map_of st b of
             None \<Rightarrow> Inl (NotFoundError (''No rules found for '' @ b))
           | Some rules \<Rightarrow>
               (case map_of rules r of
                  None \<Rightarrow> Inl (NotFoundError (''Rule '' @ r @ '' not found for '' @ b))
                | Some subs \<Rightarrow> Inr (Subscriptions subs))))
   \<and> (b \<noteq> [] \<and> r \<noteq> [] \<and> i \<noteq> [] \<longrightarrow>
        fst (getSubscriptions (Some b) (Some r) (Some i) st) =
          (case map_of st b of
             None \<Rightarrow> Inl (NotFoundError (''No rules found for '' @ b))
           | Some rules \<Rightarrow>
               (case map_of rules r of
                  None \<Rightarrow> Inl (NotFoundError (''Rule '' @ r @ '' not found for '' @ b))
                | Some subs \<Rightarrow>
                    (case map_of subs i of
                       None \<Rightarrow>
                         Inl (NotFoundError (''ID '' @ i @ '' not found for '' @ b @ ''/'' @ r))
                     | Some s \<Rightarrow> Inr (Subscription s)))))"
  by (simp add: getSubscriptions_def storage_get_def storage_list_def Let_def
           split: option.splits)

theorem getSubscriptions_forms_witness:
  "fst (getSubscriptions None None None
         [(''b1'', [(''r1'', [(''2bdd4246-d838-4c0a-9a50-a7483534836e'',
                                [(''url'', ''https://ex.com/hook'')])])])])
     = Inr (AllBuckets [(''b1'', [(''r1'', [(''2bdd4246-d838-4c0a-9a50-a7483534836e'',
                                [(''url'', ''https://ex.com/hook'')])])])])
   \<and> fst (getSubscriptions (Some ''b1'') None None
         [(''b1'', [(''r1'', [(''2bdd4246-d838-4c0a-9a50-a7483534836e'',
                                [(''url'', ''https://ex.com/hook'')])])])])
     = Inr (Rules [(''r1'', [(''2bdd4246-d838-4c0a-9a50-a7483534836e'',
                                [(''url'', ''https://ex.com/hook'')])])])
   \<and> fst (getSubscriptions (Some ''b1'') (Some ''r1'') None
         [(''b1'', [(''r1'', [(''2bdd4246-d838-4c0a-9a50-a7483534836e'',
                                [(''url'', ''https://ex.com/hook'')])])])])
     = Inr (Subscriptions [(''2bdd4246-d838-4c0a-9a50-a7483534836e'',
                                [(''url'', ''https://ex.com/hook'')])])
   \<and> fst (getSubscriptions (Some ''b1'') (Some ''r1'')
            (Some ''2bdd4246-d838-4c0a-9a50-a7483534836e'')
         [(''b1'', [(''r1'', [(''2bdd4246-d838-4c0a-9a50-a7483534836e'',
                                [(''url'', ''https://ex.com/hook'')])])])])
     = Inr (Subscription [(''url'', ''https://ex.com/hook'')])
   \<and> fst (getSubscriptions (Some ''b2'') None None
         [(''b1'', [(''r1'', [(''2bdd4246-d838-4c0a-9a50-a7483534836e'',
                                [(''url'', ''https://ex.com/hook'')])])])])
     = Inl (NotFoundError ''No rules found for b2'')"
  using getSubscriptions_forms
          [of None None None
              "[(''b1'', [(''r1'', [(''2bdd4246-d838-4c0a-9a50-a7483534836e'',
                                [(''url'', ''https://ex.com/hook'')])])])]"
              "''b1''" "''r1''" "''2bdd4246-d838-4c0a-9a50-a7483534836e''"]
        getSubscriptions_forms
          [of "Some ''b2''" None None
              "[(''b1'', [(''r1'', [(''2bdd4246-d838-4c0a-9a50-a7483534836e'',
                                [(''url'', ''https://ex.com/hook'')])])])]"
              "''b2''" "''r1''" "''2bdd4246-d838-4c0a-9a50-a7483534836e''"]
  by simp

subsection \<open>createSubscription\<close>

text \<open>
  For a rule name that a plain object does not inherit, creating a subscription and
  reading it back gives the stored \<^verbatim>\<open>{url}\<close>.
\<close>

lemma create_then_get:
  assumes "map_of subscription ''url'' = Some url" "url \<noteq> []" "canParse url"
    and "b \<noteq> []" "r \<noteq> []" "\<not> inherited r" "uuidRegExp_test uuid"
  shows "\<exists>st'. createSubscription canParse uuid b r subscription st = (Inr uuid, st')
           \<and> getSubscriptions (Some b) (Some r) (Some uuid) st'
               = (Inr (Subscription [(''url'', url)]), st')"
proof -
  have "uuid \<noteq> []" using assms(7) by (auto simp: uuidRegExp_test_def eval_nat_numeral)
  moreover have "r \<noteq> ''__proto__''" using assms(6)
    by (auto simp: inherited_def Object_prototype_names_def)
  ultimately show ?thesis using assms
    by (auto simp: createSubscription_def getSubscriptions_def storage_get_def storage_put_def
          assign_def Let_def AList.update_conv' split: option.splits)
qed

text \<open>
  Claim C4. The storage is empty, the URL is accepted and the identifier has the UUID
  shape, but the rule is named \<^verbatim>\<open>constructor\<close>. \<open>createSubscription\<close> fails
  with a \<open>DataCloneError\<close> and stores nothing, so there is no identifier to read back.
\<close>

theorem createSubscription_inherited_rule_name:
  "createSubscription (\<lambda>u. True) ''2bdd4246-d838-4c0a-9a50-a7483534836e''
     ''b1'' ''constructor'' [(''url'', ''https://ex.com/hook'')] []
   = (Inl DataCloneError, [])
   \<and> uuidRegExp_test ''2bdd4246-d838-4c0a-9a50-a7483534836e''"
  by code_simp

section \<open>Properties of the delivery engine\<close>

subsection \<open>fetchWithRetry\<close>

lemma next_delay: "(if spec_delay i = 0 then 1000 else spec_delay i * 2) = spec_delay (Suc i)"
  by (cases i) simp_all

lemma loop_never_ok:
  "\<forall>j<N. \<not> response_ok (net j) \<and> text_failure (net j) = None \<Longrightarrow> i \<le> N \<Longrightarrow>
   fetchWithRetry_loop net res opts (Num (int N)) i (spec_delay i) =
     (Rejected (Error (string_of_jsnum (Num (int N)) @ '' failures to '' @ http_method opts @
                       '' '' @ string_of_resource res)),
      concat (map (\<lambda>k. [Fetch res opts, Sleep (spec_delay k)]) [i..<N]))"
proof (induction "N - i" arbitrary: i)
  case 0
  then have "i = N" by simp
  then show ?case
    by (subst fetchWithRetry_loop.simps) simp
next
  case (Suc n)
  then have lt: "i < N" and le: "Suc i \<le> N" and n: "n = N - Suc i" by simp_all
  have nok: "\<not> response_ok (net i)" and rd: "text_failure (net i) = None"
    using Suc.prems(1) lt by simp_all
  have up: "[i..<N] = i # [Suc i..<N]" using lt by (simp add: upt_conv_Cons)
  show ?case
    by (subst fetchWithRetry_loop.simps)
       (simp add: lt nok rd next_delay Suc.hyps(1)[OF n Suc.prems(1) le] up
             del: spec_delay.simps)
qed

lemma loop_fulfilled_iff:
  "\<forall>j. text_failure (net j) = None \<Longrightarrow>
   (\<exists>resp. fst (fetchWithRetry_loop net res opts m i d) = Fulfilled resp) =
   (\<exists>j\<ge>i. js_less j m \<and> response_ok (net j))"
proof (induction net res opts m i d rule: fetchWithRetry_loop.induct)
  case (1 net resource opts maxFailureCount i delay)
  have rd: "text_failure (net i) = None" using "1.prems" by simp
  show ?case
  proof (cases "js_less i maxFailureCount")
    case False
    then have "\<And>j. j \<ge> i \<Longrightarrow> \<not> js_less j maxFailureCount"
      by (cases maxFailureCount) auto
    with False show ?thesis
      by (subst fetchWithRetry_loop.simps) auto
  next
    case True
    show ?thesis
    proof (cases "response_ok (net i)")
      case True
      with \<open>js_less i maxFailureCount\<close> show ?thesis
        by (subst fetchWithRetry_loop.simps) auto
    next
      case False
      obtain r t where rt: "fetchWithRetry_loop net resource opts maxFailureCount (Suc i)
                              (if delay = 0 then 1000 else delay * 2) = (r, t)"
        by fastforce
      have step: "fst (fetchWithRetry_loop net resource opts maxFailureCount i delay) = r"
        by (subst fetchWithRetry_loop.simps)
           (simp only: True False rd rt if_True if_False option.case prod.case fst_conv)
      have "(\<exists>j\<ge>i. js_less j maxFailureCount \<and> response_ok (net j)) =
            (\<exists>j\<ge>Suc i. js_less j maxFailureCount \<and> response_ok (net j))"
        using False by (metis Suc_leD Suc_leI le_neq_implies_less)
      with "1.IH"[OF True False rd "1.prems"] show ?thesis
        by (simp only: step rt fst_conv)
    qed
  qed
qed

lemma response_ok_iff:
  "response_ok x = (\<exists>status b. x = Response status b \<and> 200 \<le> status \<and> status \<le> 299)"
  by (cases x) auto

lemma fetch_count:
  "length (filter (\<lambda>a. a = Fetch res opts)
     (concat (map (\<lambda>k. [Fetch res opts, Sleep (spec_delay k)]) [i..<N]))) = N - i"
  by (induction N) auto

text \<open>
  The retry policy for an endpoint whose response bodies can always be read. For a
  maximum attempt count \<open>N\<close>, the retried delivery is fulfilled exactly when one of its
  first \<open>N\<close> attempts meets a response with a status from 200 to 299. When none of
  them does, the delivery is rejected, what it does is exactly \<open>N\<close> times a fetch
  followed by a sleep, the sleep after attempt \<open>k + 1\<close> lasting \<open>spec_delay k\<close>
  milliseconds (0, 1000, 2000, 4000 and so on), and the number of fetches is \<open>N\<close>.
  The last sleep comes after the last attempt and before the rejection.
\<close>

lemma fetchWithRetry_readable_bodies:
  assumes "\<forall>j. text_failure (net j) = None"
  shows "((\<exists>resp. fst (fetchWithRetry net res opts (Num (int N))) = Fulfilled resp) =
            (\<exists>j<N. \<exists>status b. net j = Response status b \<and> 200 \<le> status \<and> status \<le> 299))
       \<and> ((\<forall>j<N. \<not> response_ok (net j)) \<longrightarrow>
            (\<exists>m. fst (fetchWithRetry net res opts (Num (int N))) = Rejected (Error m))
            \<and> snd (fetchWithRetry net res opts (Num (int N))) =
                concat (map (\<lambda>k. [Fetch res opts, Sleep (spec_delay k)]) [0..<N])
            \<and> length (filter (\<lambda>a. a = Fetch res opts)
                        (snd (fetchWithRetry net res opts (Num (int N))))) = N)"
proof (intro conjI impI)
  have "(\<exists>j\<ge>0. js_less j (Num (int N)) \<and> response_ok (net j)) =
        (\<exists>j<N. \<exists>status b. net j = Response status b \<and> 200 \<le> status \<and> status \<le> 299)"
    by (auto simp: response_ok_iff)
  then show "(\<exists>resp. fst (fetchWithRetry net res opts (Num (int N))) = Fulfilled resp) =
      (\<exists>j<N. \<exists>status b. net j = Response status b \<and> 200 \<le> status \<and> status \<le> 299)"
    unfolding fetchWithRetry_def loop_fulfilled_iff[OF assms] by simp
next
  assume "\<forall>j<N. \<not> response_ok (net j)"
  with assms have a: "\<forall>j<N. \<not> response_ok (net j) \<and> text_failure (net j) = None" by simp
  have eq: "fetchWithRetry net res opts (Num (int N)) =
     (Rejected (Error (string_of_jsnum (Num (int N)) @ '' failures to '' @ http_method opts @
                       '' '' @ string_of_resource res)),
      concat (map (\<lambda>k. [Fetch res opts, Sleep (spec_delay k)]) [0..<N]))"
    using loop_never_ok[OF a, of 0 res opts] by (simp add: fetchWithRetry_def)
  show "\<exists>m. fst (fetchWithRetry net res opts (Num (int N))) = Rejected (Error m)"
    by (simp add: eq)
  show "snd (fetchWithRetry net res opts (Num (int N))) =
            concat (map (\<lambda>k. [Fetch res opts, Sleep (spec_delay k)]) [0..<N])"
    by (simp add: eq)
  show "length (filter (\<lambda>a. a = Fetch res opts)
                    (snd (fetchWithRetry net res opts (Num (int N))))) = N"
    using fetch_count[of res opts 0 N] by (simp add: eq)
qed

text \<open>
  An endpoint that always answers 500 with a readable body, and three attempts: three
  fetches with the sleeps 0, 1000 and 2000, then the rejection.
\<close>

lemma fetchWithRetry_three_attempts:
  "fetchWithRetry (\<lambda>j. Response 500 (Text ''down'')) (Url ''https://ex.com/hook'')
     (Options ''POST'' []) (Num 3)
   = (Rejected (Error ''3 failures to POST https://ex.com/hook''),
      [Fetch (Url ''https://ex.com/hook'') (Options ''POST'' []), Sleep 0,
       Fetch (Url ''https://ex.com/hook'') (Options ''POST'' []), Sleep 1000,
       Fetch (Url ''https://ex.com/hook'') (Options ''POST'' []), Sleep 2000])"
  by code_simp

text \<open>
  Claim C6. The maximum attempt count is 3 and the endpoint never answers with a status
  from 200 to 299: every response has the status 500. The body of the first response
  cannot be read. The retried delivery makes one fetch and no sleep, and is rejected with
  the exception of \<^verbatim>\<open>response.text()\<close>: one attempt, not three.
\<close>

theorem fetchWithRetry_unreadable_body:
  "fetchWithRetry
     (\<lambda>j. if j = 0 then Response 500 (Unreadable TypeError) else Response 500 (Text ''down''))
     (Url ''https://ex.com/hook'') (Options ''POST'' []) (Num 3)
   = (Rejected TypeError, [Fetch (Url ''https://ex.com/hook'') (Options ''POST'' [])])
   \<and> \<not> response_ok (Response 500 (Unreadable TypeError))
   \<and> \<not> response_ok (Response 500 (Text ''down''))"
  by code_simp

subsection \<open>The loops of handleEventNotifications\<close>

lemma handle_Cons_Normal:
  assumes "process_event stub net (maxFailureCount_of env) ev st = (Normal, tr, st1)"
  shows "handleEventNotifications (ev # evs) env stub net st =
           (case handleEventNotifications evs env stub net st1 of
              (tr2, st2) \<Rightarrow> (tr @ tr2, st2))"
  using assms
  by (simp add: handleEventNotifications_def split: prod.splits flow.splits)


lemma fan_out_Nil: "fan_out stub net m ev [] st = (Normal, [], st)"
  by (simp add: fan_out_def outcomes_def deliveries_def)


lemma handle_Cons_Returned:
  assumes "process_event stub net (maxFailureCount_of env) ev st = (Returned, tr, st1)"
  shows "handleEventNotifications (ev # evs) env stub net st = (tr, st1)"
  using assms by (simp add: handleEventNotifications_def)

text \<open>
  Claim C7. The lookup for the head event of a batch fails with the error \<open>e\<close>. When
  the handler's test takes \<open>e\<close> for a \<open>NotFoundError\<close>, the event is processed
  with no subscriber: nothing but the lookup is done for it, the state is what the lookup
  left, and the handler goes on with the rest of the batch. For any other \<open>e\<close> the
  handler logs the failure and stops: the lookup is not repeated and nothing is done for
  the rest of the batch.
\<close>

theorem lookup_failure:
  assumes "stub_getSubscriptions stub (bucketName ev) (matchedRuleName ev) st = (Inl e, st1)"
  shows "(is_not_found e \<longrightarrow>
            process_event stub net (maxFailureCount_of env) ev st =
              (Normal, [Call_getSubscriptions (bucketName ev) (matchedRuleName ev)], st1)
          \<and> handleEventNotifications (ev # evs) env stub net st =
              (case handleEventNotifications evs env stub net st1 of
                 (tr, st2) \<Rightarrow>
                   (Call_getSubscriptions (bucketName ev) (matchedRuleName ev) # tr, st2)))
       \<and> (\<not> is_not_found e \<longrightarrow>
            handleEventNotifications (ev # evs) env stub net st =
              ([Call_getSubscriptions (bucketName ev) (matchedRuleName ev), Log_lookup_error],
               st1))"
proof (intro conjI impI)
  assume nf: "is_not_found e"
  show pe: "process_event stub net (maxFailureCount_of env) ev st =
              (Normal, [Call_getSubscriptions (bucketName ev) (matchedRuleName ev)], st1)"
    using assms nf by (simp add: process_event_def fan_out_Nil)
  show "handleEventNotifications (ev # evs) env stub net st =
              (case handleEventNotifications evs env stub net st1 of
                 (tr, st2) \<Rightarrow>
                   (Call_getSubscriptions (bucketName ev) (matchedRuleName ev) # tr, st2))"
    by (simp add: handle_Cons_Normal[OF pe])
next
  assume nf: "\<not> is_not_found e"
  have "process_event stub net (maxFailureCount_of env) ev st =
          (Returned,
           [Call_getSubscriptions (bucketName ev) (matchedRuleName ev), Log_lookup_error], st1)"
    using assms nf by (simp add: process_event_def)
  from handle_Cons_Returned[OF this]
  show "handleEventNotifications (ev # evs) env stub net st =
              ([Call_getSubscriptions (bucketName ev) (matchedRuleName ev), Log_lookup_error],
               st1)" .
qed

theorem lookup_failure_witness:
  "handleEventNotifications
     [\<lparr> bucketName = ''b1'', matchedRuleName = ''r1'', payload = ''created'' \<rparr>,
      \<lparr> bucketName = ''b2'', matchedRuleName = ''r2'', payload = ''created'' \<rparr>]
     [] registry_stub (\<lambda>ev ident j. Response 200 (Text []))
     [(''b2'', [(''r2'', [(''11111111-1111-4111-8111-111111111111'',
                           [(''url'', ''https://ex.com/a'')])])])]
   = ([Call_getSubscriptions ''b1'' ''r1'',
       Call_getSubscriptions ''b2'' ''r2'',
       Delivery ''11111111-1111-4111-8111-111111111111'' (Url ''https://ex.com/a'')
         [Fetch (Url ''https://ex.com/a'')
            (Options ''POST''
               [\<lparr> bucketName = ''b2'', matchedRuleName = ''r2'', payload = ''created'' \<rparr>])]],
      [(''b2'', [(''r2'', [(''11111111-1111-4111-8111-111111111111'',
                           [(''url'', ''https://ex.com/a'')])])])])
   \<and> handleEventNotifications
     [\<lparr> bucketName = ''b1'', matchedRuleName = ''r1'', payload = ''created'' \<rparr>,
      \<lparr> bucketName = ''b2'', matchedRuleName = ''r2'', payload = ''created'' \<rparr>]
     []
     \<lparr> stub_getSubscriptions = (\<lambda>b r st. (Inl (RemoteError ''Error: storage unavailable''), st)),
       stub_deleteSubscription = (\<lambda>b r i st. deleteSubscription b r i st) \<rparr>
     (\<lambda>ev ident j. Response 200 (Text []))
     [(''b2'', [(''r2'', [(''11111111-1111-4111-8111-111111111111'',
                           [(''url'', ''https://ex.com/a'')])])])]
   = ([Call_getSubscriptions ''b1'' ''r1'', Log_lookup_error],
      [(''b2'', [(''r2'', [(''11111111-1111-4111-8111-111111111111'',
                           [(''url'', ''https://ex.com/a'')])])])])"
proof -
  let ?e1 = "\<lparr> bucketName = ''b1'', matchedRuleName = ''r1'', payload = ''created'' \<rparr>"
  let ?e2 = "\<lparr> bucketName = ''b2'', matchedRuleName = ''r2'', payload = ''created'' \<rparr>"
  let ?st = "[(''b2'', [(''r2'', [(''11111111-1111-4111-8111-111111111111'',
                           [(''url'', ''https://ex.com/a'')])])])]"
  let ?bad = "\<lparr> stub_getSubscriptions =
                  (\<lambda>b r (st::storage).
                     (Inl (RemoteError ''Error: storage unavailable'') :: js_error + value, st)),
                stub_deleteSubscription = (\<lambda>b r i st. deleteSubscription b r i st) \<rparr>"
  let ?net = "\<lambda>(ev::event) (ident::string) (j::nat). Response 200 (Text [])"
  have 1: "stub_getSubscriptions registry_stub (bucketName ?e1) (matchedRuleName ?e1) ?st
             = (Inl (NotFoundError ''No rules found for b1''), ?st)"
    by code_simp
  have 2: "stub_getSubscriptions ?bad (bucketName ?e1) (matchedRuleName ?e1) ?st
             = (Inl (RemoteError ''Error: storage unavailable''), ?st)"
    by simp
  have 3: "is_not_found (NotFoundError ''No rules found for b1'')" by simp
  have 4: "\<not> is_not_found (RemoteError ''Error: storage unavailable'')" by simp
  have 5: "handleEventNotifications [?e2] [] registry_stub ?net ?st =
     ([Call_getSubscriptions ''b2'' ''r2'',
       Delivery ''11111111-1111-4111-8111-111111111111'' (Url ''https://ex.com/a'')
         [Fetch (Url ''https://ex.com/a'') (Options ''POST'' [?e2])]], ?st)"
    by code_simp
  show ?thesis
    using lookup_failure[OF 1, of ?net "[]" "[?e2]"] lookup_failure[OF 2, of ?net "[]" "[?e2]"]
      3 4 5
    by simp
qed




subsection \<open>A maximum attempt count that is not positive\<close>









end
